theory Spec2Isabelle
  imports Main "HOL-Library.Word"
begin

unbundle bit_operations_syntax

section \<open>The mount command of TMSU (src/tmsu/cli/mount.go)\<close>

text \<open>
  The command talks to the operating system at every step: it queries the filesystem,
  creates a pipe, starts a child process, sleeps, polls the child and reads from the pipe.
  The embedding makes this explicit. A value of type \<open>world\<close> holds what the operating
  system and the packages outside this file answer to each call, and every function of
  mount.go returns the list of calls it made (its trace) together with its Go result
  (\<open>None\<close> for a nil error).
\<close>

subsection \<open>Values of the Go standard library\<close>

text \<open>The error numbers a system call can fail with, and the text Go prints for them.\<close>

datatype Errno = ENOENT | EACCES | EIO | ENOTDIR | ECHILD | ENOMEM | EMFILE

fun Errno_Error :: "Errno \<Rightarrow> string" where
  "Errno_Error ENOENT = ''no such file or directory''"
| "Errno_Error EACCES = ''permission denied''"
| "Errno_Error EIO = ''input/output error''"
| "Errno_Error ENOTDIR = ''not a directory''"
| "Errno_Error ECHILD = ''no child processes''"
| "Errno_Error ENOMEM = ''cannot allocate memory''"
| "Errno_Error EMFILE = ''too many open files''"

text \<open>
  The error values of the library that this file can meet: \<open>*os.PathError\<close>
  (operation, path, cause), a bare \<open>syscall.Errno\<close>, \<open>io.EOF\<close>, and any other error
  known only by its text (the mount table reader and \<open>exec\<close> return such).
\<close>

datatype oserror = PathError string string Errno | SyscallError Errno | EOF | OtherError string

fun oserror_Error :: "oserror \<Rightarrow> string" where
  "oserror_Error (PathError op path e) = op @ '' '' @ path @ '': '' @ Errno_Error e"
| "oserror_Error (SyscallError e) = Errno_Error e"
| "oserror_Error EOF = ''EOF''"
| "oserror_Error (OtherError s) = s"

text \<open>\<open>os.FileInfo\<close>: of all it describes, mount.go reads \<open>IsDir()\<close> only.\<close>

datatype FileKind = Directory | RegularFile | SpecialFile

record FileInfo =
  Name :: string
  Kind :: FileKind

definition IsDir :: "FileInfo \<Rightarrow> bool" where
  "IsDir stat = (Kind stat = Directory)"

text \<open>
  \<open>syscall.WaitStatus\<close> is a \<open>uint32\<close>. On Linux its low seven bits are zero exactly
  when the process left through \<open>exit\<close>, and the exit code is the second byte.
\<close>

type_synonym WaitStatus = "32 word"

definition Exited :: "WaitStatus \<Rightarrow> bool" where
  "Exited w = (w AND 0x7F = 0x00)"

definition ExitStatus :: "WaitStatus \<Rightarrow> int" where
  "ExitStatus w = (if \<not> Exited w then - 1 else uint (drop_bit 8 w) AND 0xFF)"

text \<open>The status word the kernel writes for a child that called \<open>exit(code)\<close>.\<close>

definition exit_status_word :: "8 word \<Rightarrow> WaitStatus" where
  "exit_status_word code = push_bit 8 (ucast code)"

text \<open>What \<open>wait4\<close> finds: a failure, no change of state yet, or a status word.\<close>

datatype wait4_result = WaitFailed Errno | StillRunning | Changed WaitStatus

text \<open>\<open>vfs.Mount\<close>, an entry of the mount table.\<close>

record Mount =
  DatabasePath :: string
  MountPath :: string

subsection \<open>The world outside mount.go\<close>

record world =
  os_Args0 :: string
  database_Path :: string
  stat_syscall :: "string \<Rightarrow> Errno + FileInfo"
  mount_table :: "oserror + Mount list"
  stderr_pipe_error :: "oserror option"
  start_error :: "oserror option"
  daemon_pid :: int
  wait4_syscall :: wait4_result
  pipe_data :: string
  read_errno :: "Errno option"

text \<open>
  \<^item> \<open>os_Args0\<close> is \<open>os.Args[0]\<close>, the path this process was started by;
  \<^item> \<open>database_Path\<close> is the variable \<open>database.Path\<close> of package tmsu/storage/database;
  \<^item> \<open>stat_syscall p\<close> is the answer of stat(2) for path \<open>p\<close>: an error number
    (\<open>ENOENT\<close> when nothing is at \<open>p\<close>) or the description of what is there;
  \<^item> \<open>mount_table\<close> is the answer of \<open>vfs.GetMountTable()\<close>;
  \<^item> \<open>stderr_pipe_error\<close> and \<open>start_error\<close> are the errors of \<open>daemon.StderrPipe()\<close>
    and \<open>daemon.Start()\<close>, if they fail;
  \<^item> \<open>daemon_pid\<close> is \<open>daemon.Process.Pid\<close> after a successful start;
  \<^item> \<open>wait4_syscall\<close> is what wait4(2) finds about the child when the parent polls;
  \<^item> \<open>pipe_data\<close> is what the child has written to its standard error when the parent
    reads, and \<open>read_errno\<close> the failure of that read(2), if it fails.
\<close>

text \<open>The calls that leave the process, in the order they are made.\<close>

datatype event =
    Stat string
  | LogSupp string
  | LogPrint string
  | GetMountTable
  | StderrPipe
  | Start string "string list"
  | Sleep int
  | Wait4 int int
  | PipeRead nat

text \<open>
  \<open>os.Stat\<close>: the system call's failure comes back as a nil \<open>FileInfo\<close> and a
  \<open>*PathError\<close>; this holds for a path that does not exist as for any other failure.
\<close>

definition os_Stat :: "world \<Rightarrow> string \<Rightarrow> FileInfo option \<times> oserror option" where
  "os_Stat w name =
     (case stat_syscall w name of
        Inl e \<Rightarrow> (None, Some (PathError ''stat'' name e))
      | Inr fs \<Rightarrow> (Some fs, None))"

definition WNOHANG :: int where
  "WNOHANG = 1"

text \<open>
  \<open>syscall.Wait4(pid, &wstatus, options, &rusage)\<close> called with \<open>WNOHANG\<close>: the process
  id returned, the status word stored in \<open>wstatus\<close> and the error. Go hands the kernel a
  status of its own, zero at first, and copies it to \<open>wstatus\<close> after the call. The
  kernel writes to it only when the child has changed state; otherwise the call returns
  0 at once and the word stored is zero.
\<close>

definition syscall_Wait4 :: "world \<Rightarrow> int \<Rightarrow> int \<times> WaitStatus \<times> oserror option" where
  "syscall_Wait4 w pid =
     (case wait4_syscall w of
        WaitFailed e \<Rightarrow> (- 1, 0, Some (SyscallError e))
      | StillRunning \<Rightarrow> (0, 0, None)
      | Changed status \<Rightarrow> (pid, status, None))"

text \<open>
  \<open>Read(b)\<close> on the read end of the pipe (an \<open>*os.File\<close> named \<open>|0\<close>): the buffer
  after the call, the number of bytes copied to its front and the error. A failed
  read(2) is a \<open>*PathError\<close>; a read of no byte into a buffer that has room is the end of
  the stream, \<open>io.EOF\<close>.
\<close>

definition errorPipe_Read :: "world \<Rightarrow> string \<Rightarrow> string \<times> nat \<times> oserror option" where
  "errorPipe_Read w b =
     (case read_errno w of
        Some e \<Rightarrow> (b, 0, Some (PathError ''read'' ''|0'' e))
      | None \<Rightarrow>
          (let n = min (length b) (length (pipe_data w))
           in if n = 0 \<and> 0 < length b then (b, 0, Some EOF)
              else (take n (pipe_data w) @ drop n b, n, None)))"

subsection \<open>The errors of mount.go\<close>

text \<open>
  Every error of this file is built by \<open>fmt.Errorf\<close>. There is one constructor for each
  call of it, with the arguments of the call; \<open>error_Error\<close> is the text.
\<close>

datatype error =
    CouldNotListMounts error
  | CouldNotMountDefault string error
  | CouldNotMountExplicit string string error
  | TooManyArguments
  | CouldNotGetMountTable oserror
  | CouldNotStat string oserror
  | MountPointDoesNotExist string
  | MountPointNotADirectory string
  | DatabaseDoesNotExist
  | CouldNotOpenPipe oserror
  | CouldNotStartDaemon oserror
  | CouldNotCheckDaemon oserror
  | CouldNotReadPipe oserror
  | MountFailed string

definition quoted :: "string \<Rightarrow> string" where
  "quoted s = [CHR 0x27] @ s @ [CHR 0x27]"

fun error_Error :: "error \<Rightarrow> string" where
  "error_Error (CouldNotListMounts err) = ''could not list mounts: '' @ error_Error err"
| "error_Error (CouldNotMountDefault mountPath err) =
     ''could not mount database at '' @ quoted mountPath @ '': '' @ error_Error err"
| "error_Error (CouldNotMountExplicit databasePath mountPath err) =
     ''could not mount database '' @ quoted databasePath @ '' at '' @ quoted mountPath
       @ '': '' @ error_Error err"
| "error_Error TooManyArguments = ''Too many arguments.''"
| "error_Error (CouldNotGetMountTable err) = ''could not get mount table: '' @ oserror_Error err"
| "error_Error (CouldNotStat path err) = path @ '': could not stat: '' @ oserror_Error err"
| "error_Error (MountPointDoesNotExist mountPath) = mountPath @ '': mount point does not exist.''"
| "error_Error (MountPointNotADirectory mountPath) =
     mountPath @ '': mount point is not a directory.''"
| "error_Error DatabaseDoesNotExist = ''%!v(MISSING): database does not exist.''"
| "error_Error (CouldNotOpenPipe err) =
     ''could not open standard error pipe: '' @ oserror_Error err"
| "error_Error (CouldNotStartDaemon err) = ''could not start daemon: '' @ oserror_Error err"
| "error_Error (CouldNotCheckDaemon err) =
     ''could not check daemon status: '' @ oserror_Error err"
| "error_Error (CouldNotReadPipe err) =
     ''could not read from error pipe: '' @ oserror_Error err"
| "error_Error (MountFailed text) = ''virtual filesystem mount failed: '' @ text"

subsection \<open>The functions of mount.go\<close>

type_synonym outcome = "event list \<times> error option"

definition HALF_SECOND :: int where
  "HALF_SECOND = 500000000"

definition Millisecond :: int where
  "Millisecond = 1000 * 1000"

text \<open>Lines 164 to 176 of \<open>mountExplicit\<close>: what follows the poll.\<close>

definition mountExplicit_classify :: "world \<Rightarrow> WaitStatus \<Rightarrow> outcome" where
  "mountExplicit_classify w waitStatus =
     (if Exited waitStatus then
        (if ExitStatus waitStatus \<noteq> 0 then
           (let buffer = replicate 1024 (CHR 0x00)
            in case errorPipe_Read w buffer of
                 (buffer', count, Some err) \<Rightarrow>
                   ([PipeRead (length buffer)], Some (CouldNotReadPipe err))
               | (buffer', count, None) \<Rightarrow>
                   ([PipeRead (length buffer)], Some (MountFailed (take count buffer'))))
         else ([], None))
      else ([], None))"

text \<open>The line logged before the spawn (line 131).\<close>

definition spawning_line :: "string \<Rightarrow> string \<Rightarrow> event" where
  "spawning_line databasePath mountPath =
     LogSupp (''spawning daemon to mount VFS for database '' @ quoted databasePath
                @ '' at '' @ quoted mountPath @ ''.'')"

text \<open>Lines 131 to 162 of \<open>mountExplicit\<close>: spawn, sleep and poll.\<close>

definition mountExplicit_spawn :: "world \<Rightarrow> string \<Rightarrow> string \<Rightarrow> bool \<Rightarrow> outcome" where
  "mountExplicit_spawn w databasePath mountPath allowOther =
     (let log1 = spawning_line databasePath mountPath;
          args = [''vfs'', databasePath, mountPath]
                   @ (if allowOther then [''--allow-other''] else [])
      in case stderr_pipe_error w of
           Some err \<Rightarrow> ([log1, StderrPipe], Some (CouldNotOpenPipe err))
         | None \<Rightarrow>
            (case start_error w of
               Some err \<Rightarrow>
                 ([log1, StderrPipe, Start (os_Args0 w) args], Some (CouldNotStartDaemon err))
             | None \<Rightarrow>
                (let calls = [log1, StderrPipe, Start (os_Args0 w) args,
                              LogSupp ''sleeping.'', Sleep HALF_SECOND,
                              LogSupp ''checking whether daemon started successfully.'',
                              Wait4 (daemon_pid w) WNOHANG]
                 in case syscall_Wait4 w (daemon_pid w) of
                      (wpid, waitStatus, Some err) \<Rightarrow> (calls, Some (CouldNotCheckDaemon err))
                    | (wpid, waitStatus, None) \<Rightarrow>
                        (case mountExplicit_classify w waitStatus of
                           (tr, res) \<Rightarrow> (calls @ tr, res)))))"

definition mountExplicit :: "world \<Rightarrow> string \<Rightarrow> string \<Rightarrow> bool \<Rightarrow> outcome" where
  "mountExplicit w databasePath mountPath allowOther =
     (case os_Stat w mountPath of
        (stat, Some err) \<Rightarrow> ([Stat mountPath], Some (CouldNotStat mountPath err))
      | (None, None) \<Rightarrow> ([Stat mountPath], Some (MountPointDoesNotExist mountPath))
      | (Some stat, None) \<Rightarrow>
          if \<not> IsDir stat then ([Stat mountPath], Some (MountPointNotADirectory mountPath))
          else
            (case os_Stat w databasePath of
               (stat, Some err) \<Rightarrow>
                 ([Stat mountPath, Stat databasePath], Some (CouldNotStat databasePath err))
             | (None, None) \<Rightarrow>
                 ([Stat mountPath, Stat databasePath], Some DatabaseDoesNotExist)
             | (Some stat, None) \<Rightarrow>
                 (case mountExplicit_spawn w databasePath mountPath allowOther of
                    (tr, res) \<Rightarrow> ([Stat mountPath, Stat databasePath] @ tr, res))))"

definition mountDefault :: "world \<Rightarrow> string \<Rightarrow> bool \<Rightarrow> outcome" where
  "mountDefault w mountPath allowOther =
     (case mountExplicit w (database_Path w) mountPath allowOther of
        (tr, Some err) \<Rightarrow> (tr, Some err)
      | (tr, None) \<Rightarrow> (tr, None))"

definition listMounts :: "world \<Rightarrow> outcome" where
  "listMounts w =
     (case mount_table w of
        Inl err \<Rightarrow>
          ([LogSupp ''retrieving mount table.'', GetMountTable], Some (CouldNotGetMountTable err))
      | Inr mt \<Rightarrow>
          ([LogSupp ''retrieving mount table.'', GetMountTable]
             @ (if length mt = 0 then [LogSupp ''mount table is empty.''] else [])
             @ map (\<lambda>mount. LogPrint (quoted (DatabasePath mount) @ '' at ''
                                          @ quoted (MountPath mount))) mt,
           None))"

text \<open>
  \<open>mountExec\<close>. The type \<open>Options\<close> is declared elsewhere in the package; it is taken
  here as what its method \<open>HasOption\<close> answers.
\<close>

type_synonym Options = "string \<Rightarrow> bool"

definition mountExec :: "world \<Rightarrow> Options \<Rightarrow> string list \<Rightarrow> outcome" where
  "mountExec w HasOption args =
     (let allowOther = HasOption ''--allow-other'';
          argCount = length args
      in if argCount = 0 then
           (case listMounts w of
              (tr, Some err) \<Rightarrow> (tr, Some (CouldNotListMounts err))
            | (tr, None) \<Rightarrow> (tr, None))
         else if argCount = 1 then
           (let mountPath = args ! 0
            in case mountDefault w mountPath allowOther of
                 (tr, Some err) \<Rightarrow> (tr, Some (CouldNotMountDefault mountPath err))
               | (tr, None) \<Rightarrow> (tr, None))
         else if argCount = 2 then
           (let databasePath = args ! 0;
                mountPath = args ! 1
            in case mountExplicit w databasePath mountPath allowOther of
                 (tr, Some err) \<Rightarrow>
                   (tr, Some (CouldNotMountExplicit databasePath mountPath err))
               | (tr, None) \<Rightarrow> (tr, None))
         else ([], Some TooManyArguments))"

subsection \<open>Reading a run\<close>

text \<open>
  What lines 166 to 172 get from the pipe: the text \<open>string(buffer[0:count])\<close> after a
  read into a fresh buffer of 1024 bytes, and the error of the read.
\<close>

definition read_diagnostic :: "world \<Rightarrow> string \<times> oserror option" where
  "read_diagnostic w =
     (case errorPipe_Read w (replicate 1024 (CHR 0x00)) of
        (buffer, count, err) \<Rightarrow> (take count buffer, err))"

fun is_Start :: "event \<Rightarrow> bool" where
  "is_Start (Start name args) = True"
| "is_Start e = False"

fun is_Sleep :: "event \<Rightarrow> bool" where
  "is_Sleep (Sleep d) = True"
| "is_Sleep e = False"

fun is_Wait4 :: "event \<Rightarrow> bool" where
  "is_Wait4 (Wait4 pid options) = True"
| "is_Wait4 e = False"

fun is_PipeRead :: "event \<Rightarrow> bool" where
  "is_PipeRead (PipeRead n) = True"
| "is_PipeRead e = False"

text \<open>
  The two checks of \<open>mountExplicit\<close> pass: the query of the mount path finds a
  directory, and the query of the database path finds anything at all.
\<close>

definition validated :: "world \<Rightarrow> string \<Rightarrow> string \<Rightarrow> bool" where
  "validated w databasePath mountPath =
     (case stat_syscall w mountPath of
        Inl e \<Rightarrow> False
      | Inr stat \<Rightarrow>
          IsDir stat \<and> (case stat_syscall w databasePath of Inl e \<Rightarrow> False | Inr stat' \<Rightarrow> True))"

text \<open>The child was started: the checks pass, the pipe opens and \<open>Start\<close> succeeds.\<close>

definition started :: "world \<Rightarrow> string \<Rightarrow> string \<Rightarrow> bool" where
  "started w databasePath mountPath =
     (validated w databasePath mountPath \<and> stderr_pipe_error w = None \<and> start_error w = None)"

text \<open>The argument vector of lines 133 to 136, as a function of the request.\<close>

definition daemon_args :: "string \<Rightarrow> string \<Rightarrow> bool \<Rightarrow> string list" where
  "daemon_args databasePath mountPath allowOther =
     (if allowOther then [''vfs'', databasePath, mountPath, ''--allow-other'']
      else [''vfs'', databasePath, mountPath])"

text \<open>The calls of a launch that gets as far as the poll (lines 131 to 159).\<close>

definition launch_trace :: "world \<Rightarrow> string \<Rightarrow> string \<Rightarrow> bool \<Rightarrow> event list" where
  "launch_trace w databasePath mountPath allowOther =
     [spawning_line databasePath mountPath, StderrPipe,
      Start (os_Args0 w) (daemon_args databasePath mountPath allowOther),
      LogSupp ''sleeping.'', Sleep HALF_SECOND,
      LogSupp ''checking whether daemon started successfully.'',
      Wait4 (daemon_pid w) WNOHANG]"

subsection \<open>A sample machine\<close>

text \<open>
  A directory at /mnt/tags, regular files at /home/u/.tmsu/default.db and /etc/hostname,
  a directory /root/private that may not be searched, and nothing else. The child, once
  started, is still running when polled.
\<close>

definition sample_files :: "string \<Rightarrow> Errno + FileInfo" where
  "sample_files p =
     (if p = ''/mnt/tags'' then Inr \<lparr>Name = ''tags'', Kind = Directory\<rparr>
      else if p = ''/home/u/.tmsu/default.db'' then Inr \<lparr>Name = ''default.db'', Kind = RegularFile\<rparr>
      else if p = ''/etc/hostname'' then Inr \<lparr>Name = ''hostname'', Kind = RegularFile\<rparr>
      else if p = ''/root/private/db'' then Inl EACCES
      else Inl ENOENT)"

definition sample_world :: world where
  "sample_world =
     \<lparr>os_Args0 = ''/usr/bin/tmsu'',
      database_Path = ''/home/u/.tmsu/default.db'',
      stat_syscall = sample_files,
      mount_table = Inr [],
      stderr_pipe_error = None,
      start_error = None,
      daemon_pid = 4242,
      wait4_syscall = StillRunning,
      pipe_data = [],
      read_errno = None\<rparr>"

section \<open>Properties\<close>

subsection \<open>The wait status\<close>

lemma low_seven_bits: "(0x7F :: 32 word) = mask 7"
  by (simp add: mask_eq_exp_minus_1)

lemma low_eight_bits: "(0xFF :: 32 word) = mask 8"
  by (simp add: mask_eq_exp_minus_1)

lemma Exited_exit_status_word: "Exited (exit_status_word c)"
  unfolding Exited_def exit_status_word_def low_seven_bits
  by (rule bit_word_eqI) (auto simp add: bit_simps)

lemma ExitStatus_exit_status_word: "ExitStatus (exit_status_word c) = uint c"
proof -
  have "drop_bit 8 (push_bit 8 (ucast c :: 32 word)) AND 0xFF = ucast c"
    unfolding low_eight_bits
    by (rule bit_word_eqI) (auto simp add: bit_simps dest: bit_imp_le_length)
  then have "uint (drop_bit 8 (push_bit 8 (ucast c :: 32 word)) AND 0xFF) = uint c"
    by (simp add: uint_up_ucast is_up)
  then have "uint (drop_bit 8 (push_bit 8 (ucast c :: 32 word))) AND 0xFF = uint c"
    by (simp add: uint_and)
  then show ?thesis
    using Exited_exit_status_word [of c]
    by (simp add: ExitStatus_def exit_status_word_def)
qed

lemma ExitStatus_zero_word: "ExitStatus 0 = 0"
  by (simp add: ExitStatus_def Exited_def)

subsection \<open>The paths through \<open>mountExplicit\<close>\<close>

lemma os_Stat_not_nil_nil: "os_Stat w name \<noteq> (None, None)"
  by (simp add: os_Stat_def split: sum.split)

lemma mountExplicit_stat_failed:
  assumes "stat_syscall w mountPath = Inl e"
  shows "mountExplicit w databasePath mountPath allowOther =
           ([Stat mountPath], Some (CouldNotStat mountPath (PathError ''stat'' mountPath e)))"
  using assms by (simp add: mountExplicit_def os_Stat_def)

lemma mountExplicit_not_dir:
  assumes "stat_syscall w mountPath = Inr stat" and "\<not> IsDir stat"
  shows "mountExplicit w databasePath mountPath allowOther =
           ([Stat mountPath], Some (MountPointNotADirectory mountPath))"
  using assms by (simp add: mountExplicit_def os_Stat_def)

lemma mountExplicit_database_stat_failed:
  assumes "stat_syscall w mountPath = Inr stat" and "IsDir stat"
    and "stat_syscall w databasePath = Inl e"
  shows "mountExplicit w databasePath mountPath allowOther =
           ([Stat mountPath, Stat databasePath],
            Some (CouldNotStat databasePath (PathError ''stat'' databasePath e)))"
  using assms by (simp add: mountExplicit_def os_Stat_def)

lemma mountExplicit_validated:
  assumes "validated w databasePath mountPath"
  shows "mountExplicit w databasePath mountPath allowOther =
           ([Stat mountPath, Stat databasePath]
              @ fst (mountExplicit_spawn w databasePath mountPath allowOther),
            snd (mountExplicit_spawn w databasePath mountPath allowOther))"
  using assms
  by (auto simp add: validated_def mountExplicit_def os_Stat_def split: sum.splits prod.splits)

lemma mountExplicit_not_validated:
  assumes "\<not> validated w databasePath mountPath"
  shows "snd (mountExplicit w databasePath mountPath allowOther) \<noteq> None
         \<and> set (fst (mountExplicit w databasePath mountPath allowOther))
             \<subseteq> {Stat mountPath, Stat databasePath}"
  using assms
  by (auto simp add: validated_def mountExplicit_def os_Stat_def split: sum.splits prod.splits)

lemma spawn_pipe_failed:
  assumes "stderr_pipe_error w = Some err"
  shows "mountExplicit_spawn w databasePath mountPath allowOther =
           ([spawning_line databasePath mountPath, StderrPipe], Some (CouldNotOpenPipe err))"
  using assms by (simp add: mountExplicit_spawn_def Let_def)

lemma spawn_start_failed:
  assumes "stderr_pipe_error w = None" and "start_error w = Some err"
  shows "mountExplicit_spawn w databasePath mountPath allowOther =
           ([spawning_line databasePath mountPath, StderrPipe,
             Start (os_Args0 w) (daemon_args databasePath mountPath allowOther)],
            Some (CouldNotStartDaemon err))"
  using assms by (simp add: mountExplicit_spawn_def Let_def daemon_args_def)

lemma spawn_poll_failed:
  assumes "stderr_pipe_error w = None" and "start_error w = None"
    and "wait4_syscall w = WaitFailed e"
  shows "mountExplicit_spawn w databasePath mountPath allowOther =
           (launch_trace w databasePath mountPath allowOther,
            Some (CouldNotCheckDaemon (SyscallError e)))"
  using assms
  by (simp add: mountExplicit_spawn_def Let_def daemon_args_def syscall_Wait4_def
      launch_trace_def)

lemma spawn_still_running:
  assumes "stderr_pipe_error w = None" and "start_error w = None"
    and "wait4_syscall w = StillRunning"
  shows "mountExplicit_spawn w databasePath mountPath allowOther =
           (launch_trace w databasePath mountPath allowOther, None)"
  using assms
  by (simp add: mountExplicit_spawn_def Let_def daemon_args_def syscall_Wait4_def
      launch_trace_def mountExplicit_classify_def ExitStatus_zero_word)

lemma spawn_changed:
  assumes "stderr_pipe_error w = None" and "start_error w = None"
    and "wait4_syscall w = Changed s"
  shows "mountExplicit_spawn w databasePath mountPath allowOther =
           (launch_trace w databasePath mountPath allowOther
              @ fst (mountExplicit_classify w s),
            snd (mountExplicit_classify w s))"
  using assms
  by (simp add: mountExplicit_spawn_def Let_def daemon_args_def syscall_Wait4_def
      launch_trace_def split: prod.splits)

lemma classify_cases:
  "mountExplicit_classify w s = ([], None) \<or>
   (\<exists>err. mountExplicit_classify w s = ([PipeRead 1024], Some (CouldNotReadPipe err))) \<or>
   (\<exists>text. mountExplicit_classify w s = ([PipeRead 1024], Some (MountFailed text)))"
  by (simp add: mountExplicit_classify_def split: prod.splits option.splits)

lemma spawn_ignores_files:
  "mountExplicit_spawn (w\<lparr>stat_syscall := f\<rparr>) databasePath mountPath allowOther =
   mountExplicit_spawn w databasePath mountPath allowOther"
proof -
  have "errorPipe_Read (w\<lparr>stat_syscall := f\<rparr>) b = errorPipe_Read w b" for b
    by (cases "read_errno w") (auto simp add: errorPipe_Read_def Let_def min_def)
  then have "mountExplicit_classify (w\<lparr>stat_syscall := f\<rparr>) s = mountExplicit_classify w s" for s
    by (simp add: mountExplicit_classify_def)
  moreover have "syscall_Wait4 (w\<lparr>stat_syscall := f\<rparr>) pid = syscall_Wait4 w pid" for pid
    by (simp add: syscall_Wait4_def)
  ultimately show ?thesis
    by (simp add: mountExplicit_spawn_def Let_def split: option.split)
qed

lemma spawn_trace_cases:
  "fst (mountExplicit_spawn w databasePath mountPath allowOther) \<in>
     {[spawning_line databasePath mountPath, StderrPipe],
      [spawning_line databasePath mountPath, StderrPipe,
       Start (os_Args0 w) (daemon_args databasePath mountPath allowOther)],
      launch_trace w databasePath mountPath allowOther,
      launch_trace w databasePath mountPath allowOther @ [PipeRead 1024]}"
proof (cases "stderr_pipe_error w")
  case (Some err)
  then show ?thesis by (simp add: spawn_pipe_failed)
next
  case None
  note pipe = this
  show ?thesis
  proof (cases "start_error w")
    case (Some err)
    with pipe show ?thesis by (simp add: spawn_start_failed)
  next
    case None
    note start = this
    show ?thesis
    proof (cases "wait4_syscall w")
      case (WaitFailed e)
      with pipe start show ?thesis by (simp add: spawn_poll_failed)
    next
      case StillRunning
      with pipe start show ?thesis by (simp add: spawn_still_running)
    next
      case (Changed s)
      with pipe start classify_cases [of w s] show ?thesis
        by (auto simp add: spawn_changed)
    qed
  qed
qed

lemma launch_trace_Start:
  "filter is_Start (launch_trace w databasePath mountPath allowOther) =
     [Start (os_Args0 w) (daemon_args databasePath mountPath allowOther)]"
  by (simp add: launch_trace_def spawning_line_def)

lemma classify_exit_nonzero:
  assumes "Exited s" and "ExitStatus s \<noteq> 0"
  shows "mountExplicit_classify w s =
           ([PipeRead 1024],
            (case read_diagnostic w of
               (message, Some err) \<Rightarrow> Some (CouldNotReadPipe err)
             | (message, None) \<Rightarrow> Some (MountFailed message)))"
  using assms
  by (simp add: mountExplicit_classify_def read_diagnostic_def split: prod.split option.split)

lemma started_exit_nonzero:
  assumes "started w databasePath mountPath" and "wait4_syscall w = Changed s"
    and "Exited s" and "ExitStatus s \<noteq> 0"
  shows "mountExplicit w databasePath mountPath allowOther =
           ([Stat mountPath, Stat databasePath]
              @ launch_trace w databasePath mountPath allowOther @ [PipeRead 1024],
            (case read_diagnostic w of
               (message, Some err) \<Rightarrow> Some (CouldNotReadPipe err)
             | (message, None) \<Rightarrow> Some (MountFailed message)))"
  using assms
  by (simp add: started_def mountExplicit_validated spawn_changed classify_exit_nonzero)

lemma sample_world_started:
  "started sample_world ''/home/u/.tmsu/default.db'' ''/mnt/tags''"
  by (simp add: started_def validated_def sample_world_def sample_files_def IsDir_def)

lemma started_update:
  "started (w\<lparr>wait4_syscall := r, pipe_data := d, read_errno := e\<rparr>) databasePath mountPath = started w databasePath mountPath"
  by (simp add: started_def validated_def split: sum.split)

lemma spawn_Start_events:
  "filter is_Start (fst (mountExplicit_spawn w databasePath mountPath allowOther)) =
     (if stderr_pipe_error w = None
      then [Start (os_Args0 w) (daemon_args databasePath mountPath allowOther)] else [])"
proof (cases "stderr_pipe_error w")
  case (Some err)
  then show ?thesis by (simp add: spawn_pipe_failed spawning_line_def)
next
  case None
  note pipe = this
  show ?thesis
  proof (cases "start_error w")
    case (Some err)
    with pipe show ?thesis by (simp add: spawn_start_failed spawning_line_def)
  next
    case None
    note start = this
    show ?thesis
    proof (cases "wait4_syscall w")
      case (WaitFailed e)
      with pipe start show ?thesis by (simp add: spawn_poll_failed launch_trace_Start)
    next
      case StillRunning
      with pipe start show ?thesis by (simp add: spawn_still_running launch_trace_Start)
    next
      case (Changed s)
      with pipe start classify_cases [of w s] show ?thesis
        by (auto simp add: spawn_changed launch_trace_Start)
    qed
  qed
qed

lemma mountExplicit_Start_events:
  "filter is_Start (fst (mountExplicit w databasePath mountPath allowOther)) =
     (if validated w databasePath mountPath \<and> stderr_pipe_error w = None
      then [Start (os_Args0 w) (daemon_args databasePath mountPath allowOther)] else [])"
proof (cases "validated w databasePath mountPath")
  case True
  then show ?thesis by (simp add: mountExplicit_validated spawn_Start_events)
next
  case False
  from mountExplicit_not_validated [OF this, of allowOther]
  have "set (fst (mountExplicit w databasePath mountPath allowOther))
          \<subseteq> {Stat mountPath, Stat databasePath}" by simp
  then have "\<forall>e \<in> set (fst (mountExplicit w databasePath mountPath allowOther)). \<not> is_Start e"
    by auto
  then have "filter is_Start (fst (mountExplicit w databasePath mountPath allowOther)) = []"
    by (simp add: filter_empty_conv)
  with False show ?thesis by simp
qed

lemma read_diagnostic_eq:
  "read_diagnostic w =
     (case read_errno w of
        Some e \<Rightarrow> ([], Some (PathError ''read'' ''|0'' e))
      | None \<Rightarrow>
          if pipe_data w = [] then ([], Some EOF) else (take 1024 (pipe_data w), None))"
  by (simp add: read_diagnostic_def errorPipe_Read_def Let_def min_def split: option.split)

lemma read_diagnostic_length: "length (fst (read_diagnostic w)) \<le> 1024"
  by (simp add: read_diagnostic_eq split: option.split)

lemma classify_MountFailed_length:
  assumes "snd (mountExplicit_classify w s) = Some (MountFailed text)"
  shows "length text \<le> 1024"
proof -
  from assms have "text = fst (read_diagnostic w)"
    by (auto simp add: mountExplicit_classify_def read_diagnostic_def Let_def
        split: if_splits prod.splits option.splits)
  then show ?thesis by (simp add: read_diagnostic_length)
qed

lemma spawn_MountFailed_length:
  assumes "snd (mountExplicit_spawn w databasePath mountPath allowOther) = Some (MountFailed text)"
  shows "length text \<le> 1024"
proof (cases "stderr_pipe_error w")
  case (Some err)
  with assms show ?thesis by (simp add: spawn_pipe_failed)
next
  case None
  note pipe = this
  show ?thesis
  proof (cases "start_error w")
    case (Some err)
    with pipe assms show ?thesis by (simp add: spawn_start_failed)
  next
    case None
    note start = this
    show ?thesis
    proof (cases "wait4_syscall w")
      case (WaitFailed e)
      with pipe start assms show ?thesis by (simp add: spawn_poll_failed)
    next
      case StillRunning
      with pipe start assms show ?thesis by (simp add: spawn_still_running)
    next
      case (Changed s)
      with pipe start assms show ?thesis
        by (simp add: spawn_changed classify_MountFailed_length)
    qed
  qed
qed

lemma mountExplicit_MountFailed_length:
  assumes "snd (mountExplicit w databasePath mountPath allowOther) = Some (MountFailed text)"
  shows "length text \<le> 1024"
proof (cases "validated w databasePath mountPath")
  case True
  with assms show ?thesis
    by (simp add: mountExplicit_validated spawn_MountFailed_length)
next
  case False
  then have "mountExplicit w databasePath mountPath allowOther \<in>
      {([Stat mountPath], Some (CouldNotStat mountPath (PathError ''stat'' mountPath e))) | e. True}
      \<union> {([Stat mountPath], Some (MountPointNotADirectory mountPath))}
      \<union> {([Stat mountPath, Stat databasePath],
            Some (CouldNotStat databasePath (PathError ''stat'' databasePath e))) | e. True}"
    by (auto simp add: validated_def mountExplicit_def os_Stat_def split: sum.splits)
  with assms show ?thesis by auto
qed

lemma started_traces:
  assumes "started w databasePath mountPath"
  shows "fst (mountExplicit w databasePath mountPath allowOther) =
           [Stat mountPath, Stat databasePath] @ launch_trace w databasePath mountPath allowOther
         \<or> fst (mountExplicit w databasePath mountPath allowOther) =
           [Stat mountPath, Stat databasePath] @ launch_trace w databasePath mountPath allowOther
             @ [PipeRead 1024]"
proof (cases "wait4_syscall w")
  case (WaitFailed e)
  with assms show ?thesis
    by (simp add: started_def mountExplicit_validated spawn_poll_failed)
next
  case StillRunning
  with assms show ?thesis
    by (simp add: started_def mountExplicit_validated spawn_still_running)
next
  case (Changed s)
  with assms classify_cases [of w s] show ?thesis
    by (auto simp add: started_def mountExplicit_validated spawn_changed)
qed

lemma not_started_traces:
  assumes "\<not> started w databasePath mountPath"
  shows "set (fst (mountExplicit w databasePath mountPath allowOther)) \<subseteq>
           {Stat mountPath, Stat databasePath, spawning_line databasePath mountPath, StderrPipe,
            Start (os_Args0 w) (daemon_args databasePath mountPath allowOther)}"
proof (cases "validated w databasePath mountPath")
  case False
  from mountExplicit_not_validated [OF this, of allowOther] show ?thesis by auto
next
  case True
  with assms have "stderr_pipe_error w \<noteq> None \<or> 
       (stderr_pipe_error w = None \<and> start_error w \<noteq> None)"
    by (auto simp add: started_def)
  with True show ?thesis
    by (auto simp add: mountExplicit_validated spawn_pipe_failed spawn_start_failed)
qed

subsection \<open>The claims\<close>

text \<open>
  C1. The claim: for a mount point (or database path) that does not exist, validation
  fails with the error saying that it does not exist, apart from the error for a failed
  filesystem query. The code has a branch for each of the two (lines 116 and 127), taken
  when \<open>os.Stat\<close> returns neither a description nor an error; \<open>os.Stat\<close> never does
  so, and reports a missing path as an error. Hence no run of \<open>mountExplicit\<close> returns
  either of the two errors, and on the sample machine the missing mount point
  /mnt/missing and the missing database /srv/missing.db end in the branch of lines 113
  and 124, as does the unreadable /root/private/db.
\<close>

theorem C1_absent_path_is_a_stat_failure:
  "snd (mountExplicit w databasePath mountPath allowOther) \<noteq> Some (MountPointDoesNotExist p)
   \<and> snd (mountExplicit w databasePath mountPath allowOther) \<noteq> Some DatabaseDoesNotExist
   \<and> stat_syscall sample_world ''/mnt/missing'' = Inl ENOENT
   \<and> mountExplicit sample_world ''/home/u/.tmsu/default.db'' ''/mnt/missing'' False =
       ([Stat ''/mnt/missing''],
        Some (CouldNotStat ''/mnt/missing'' (PathError ''stat'' ''/mnt/missing'' ENOENT)))
   \<and> error_Error (CouldNotStat ''/mnt/missing'' (PathError ''stat'' ''/mnt/missing'' ENOENT)) =
       ''/mnt/missing: could not stat: stat /mnt/missing: no such file or directory''
   \<and> stat_syscall sample_world ''/srv/missing.db'' = Inl ENOENT
   \<and> mountExplicit sample_world ''/srv/missing.db'' ''/mnt/tags'' False =
       ([Stat ''/mnt/tags'', Stat ''/srv/missing.db''],
        Some (CouldNotStat ''/srv/missing.db'' (PathError ''stat'' ''/srv/missing.db'' ENOENT)))
   \<and> stat_syscall sample_world ''/root/private/db'' = Inl EACCES
   \<and> mountExplicit sample_world ''/root/private/db'' ''/mnt/tags'' False =
       ([Stat ''/mnt/tags'', Stat ''/root/private/db''],
        Some (CouldNotStat ''/root/private/db'' (PathError ''stat'' ''/root/private/db'' EACCES)))"
proof -
  have general: "snd (mountExplicit w databasePath mountPath allowOther) \<noteq> Some (MountPointDoesNotExist p)
   \<and> snd (mountExplicit w databasePath mountPath allowOther) \<noteq> Some DatabaseDoesNotExist"
    by (auto simp add: mountExplicit_def os_Stat_def mountExplicit_spawn_def Let_def
        mountExplicit_classify_def syscall_Wait4_def
        split: sum.splits prod.splits option.splits wait4_result.splits)
  have files: "stat_syscall sample_world = sample_files"
    by (simp add: sample_world_def)
  have dir: "IsDir \<lparr>Name = ''tags'', Kind = Directory\<rparr>"
    by (simp add: IsDir_def)
  show ?thesis
    using general
    by (simp add: files sample_files_def dir mountExplicit_stat_failed
        mountExplicit_database_stat_failed [OF _ dir])
qed

text \<open>
  C2. The claim: when the child exited with a status other than zero, a read of zero
  bytes from its error stream is no error and ends in the mount failure with an empty
  text. It does not hold. \<open>Read\<close> returns \<open>io.EOF\<close> when it reads nothing, and line
  168 takes every error of the read, this one too, as a failed read. On the sample
  machine a child that exits with status 1 and has written nothing ends in
  \<open>could not read from error pipe: EOF\<close>.
\<close>

theorem C2_silent_exit_counterexample:
  "ExitStatus (exit_status_word 1) = 1
   \<and> errorPipe_Read (sample_world\<lparr>wait4_syscall := Changed (exit_status_word 1),
                                   pipe_data := [], read_errno := None\<rparr>)
         (replicate 1024 (CHR 0x00)) = (replicate 1024 (CHR 0x00), 0, Some EOF)
   \<and> snd (mountExplicit (sample_world\<lparr>wait4_syscall := Changed (exit_status_word 1),
                                        pipe_data := [], read_errno := None\<rparr>)
             ''/home/u/.tmsu/default.db'' ''/mnt/tags'' False) = Some (CouldNotReadPipe EOF)
   \<and> snd (mountExplicit (sample_world\<lparr>wait4_syscall := Changed (exit_status_word 1),
                                        pipe_data := [], read_errno := None\<rparr>)
             ''/home/u/.tmsu/default.db'' ''/mnt/tags'' False) \<noteq> Some (MountFailed [])"
proof -
  let ?w = "sample_world\<lparr>wait4_syscall := Changed (exit_status_word 1),
                          pipe_data := [], read_errno := None\<rparr>"
  have status: "ExitStatus (exit_status_word 1) = 1"
    by (simp add: ExitStatus_exit_status_word)
  have read: "errorPipe_Read ?w (replicate 1024 (CHR 0x00)) =
      (replicate 1024 (CHR 0x00), 0, Some EOF)"
    by (simp add: errorPipe_Read_def)
  have "started ?w ''/home/u/.tmsu/default.db'' ''/mnt/tags''"
    by (simp only: started_update sample_world_started)
  then have "snd (mountExplicit ?w ''/home/u/.tmsu/default.db'' ''/mnt/tags'' False) =
               Some (CouldNotReadPipe EOF)"
    by (simp add: started_exit_nonzero [where s = "exit_status_word 1"]
        Exited_exit_status_word status read read_diagnostic_def)
  with status read show ?thesis by simp
qed

text \<open>
  C2, as the code has it. When the child was started and the poll shows that it exited
  with a status other than zero: a failed read(2) ends in the read failure with that
  error; a read that finds nothing ends in the read failure with \<open>io.EOF\<close>; and a read
  that finds bytes ends in the mount failure with the first 1024 of them at most. The
  mount failure with an empty text is never returned.
\<close>

theorem C2_diagnostic_read:
  assumes "started w databasePath mountPath" and "wait4_syscall w = Changed s"
    and "Exited s" and "ExitStatus s \<noteq> 0"
  shows "(case read_errno w of
            Some e \<Rightarrow>
              snd (mountExplicit w databasePath mountPath allowOther) =
                Some (CouldNotReadPipe (PathError ''read'' ''|0'' e))
          | None \<Rightarrow>
              (if pipe_data w = [] then
                 snd (mountExplicit w databasePath mountPath allowOther) =
                   Some (CouldNotReadPipe EOF)
               else
                 snd (mountExplicit w databasePath mountPath allowOther) =
                   Some (MountFailed (take 1024 (pipe_data w)))))
         \<and> snd (mountExplicit w databasePath mountPath allowOther) \<noteq> Some (MountFailed [])"
  using assms
  by (simp add: started_exit_nonzero read_diagnostic_eq split: option.split)

text \<open>C2 on the sample machine: a read that fails with EIO, and a child that wrote a line.\<close>

theorem C2_diagnostic_read_witness:
  "snd (mountExplicit (sample_world\<lparr>wait4_syscall := Changed (exit_status_word 3),
                                      pipe_data := [], read_errno := Some EIO\<rparr>)
          ''/home/u/.tmsu/default.db'' ''/mnt/tags'' True) =
     Some (CouldNotReadPipe (PathError ''read'' ''|0'' EIO))
   \<and> snd (mountExplicit (sample_world\<lparr>wait4_syscall := Changed (exit_status_word 3),
                                        pipe_data := ''bad database'', read_errno := None\<rparr>)
            ''/home/u/.tmsu/default.db'' ''/mnt/tags'' True) =
       Some (MountFailed ''bad database'')"
proof -
  let ?w1 = "sample_world\<lparr>wait4_syscall := Changed (exit_status_word 3),
                           pipe_data := [], read_errno := Some EIO\<rparr>"
  let ?w2 = "sample_world\<lparr>wait4_syscall := Changed (exit_status_word 3),
                           pipe_data := ''bad database'', read_errno := None\<rparr>"
  have status: "ExitStatus (exit_status_word 3) \<noteq> 0"
    by (simp add: ExitStatus_exit_status_word)
  have s1: "started ?w1 ''/home/u/.tmsu/default.db'' ''/mnt/tags''"
    by (simp only: started_update sample_world_started)
  have s2: "started ?w2 ''/home/u/.tmsu/default.db'' ''/mnt/tags''"
    by (simp only: started_update sample_world_started)
  from C2_diagnostic_read [OF s1 _ Exited_exit_status_word status, of True]
    C2_diagnostic_read [OF s2 _ Exited_exit_status_word status, of True]
  show ?thesis by simp
qed

text \<open>
  C3. Both checks are made, and pass, before any child is started: a trace of
  \<open>mountExplicit\<close> that holds a \<open>Start\<close> begins with the query of the mount point and
  the query of the database path, and both checks passed. In particular, when the query
  of the mount point fails (as it does for a path that does not exist) or finds something
  that is not a directory, the operation fails and its trace holds no \<open>Start\<close>.
\<close>

theorem C3_checks_before_spawn:
  "(list_ex is_Start (fst (mountExplicit w databasePath mountPath allowOther)) \<longrightarrow>
      validated w databasePath mountPath
      \<and> (\<exists>rest. fst (mountExplicit w databasePath mountPath allowOther) =
                   Stat mountPath # Stat databasePath # rest))
   \<and> (stat_syscall w mountPath = Inl e \<or> (stat_syscall w mountPath = Inr stat \<and> \<not> IsDir stat) \<longrightarrow>
        snd (mountExplicit w databasePath mountPath allowOther) \<noteq> None
        \<and> \<not> list_ex is_Start (fst (mountExplicit w databasePath mountPath allowOther)))"
proof -
  have events: "list_ex is_Start (fst (mountExplicit w databasePath mountPath allowOther)) =
                  (validated w databasePath mountPath \<and> stderr_pipe_error w = None)"
  proof -
    have "list_ex is_Start tr = (filter is_Start tr \<noteq> [])" for tr
      by (simp add: list_ex_iff filter_empty_conv)
    then show ?thesis
      by (simp add: mountExplicit_Start_events)
  qed
  have first: "validated w databasePath mountPath \<Longrightarrow>
      \<exists>rest. fst (mountExplicit w databasePath mountPath allowOther) =
                   Stat mountPath # Stat databasePath # rest"
    by (simp add: mountExplicit_validated)
  have second: "stat_syscall w mountPath = Inl e \<or> (stat_syscall w mountPath = Inr stat \<and> \<not> IsDir stat)
      \<Longrightarrow> \<not> validated w databasePath mountPath"
    by (auto simp add: validated_def)
  show ?thesis
    using events first second mountExplicit_not_validated [of w databasePath mountPath allowOther]
    by blast
qed

text \<open>C3 on the sample machine: a mount that spawns, and a missing mount point.\<close>

theorem C3_checks_before_spawn_witness:
  "list_ex is_Start (fst (mountExplicit sample_world ''/home/u/.tmsu/default.db'' ''/mnt/tags'' False))
   \<and> validated sample_world ''/home/u/.tmsu/default.db'' ''/mnt/tags''
   \<and> (\<exists>rest. fst (mountExplicit sample_world ''/home/u/.tmsu/default.db'' ''/mnt/tags'' False) =
                Stat ''/mnt/tags'' # Stat ''/home/u/.tmsu/default.db'' # rest)
   \<and> stat_syscall sample_world ''/mnt/missing'' = Inl ENOENT
   \<and> snd (mountExplicit sample_world ''/home/u/.tmsu/default.db'' ''/mnt/missing'' False) \<noteq> None
   \<and> \<not> list_ex is_Start
           (fst (mountExplicit sample_world ''/home/u/.tmsu/default.db'' ''/mnt/missing'' False))"
proof -
  have spawned: "list_ex is_Start
     (fst (mountExplicit sample_world ''/home/u/.tmsu/default.db'' ''/mnt/tags'' False))"
    using sample_world_started
    by (simp add: started_def mountExplicit_validated spawn_still_running sample_world_def
        launch_trace_def)
  have missing: "stat_syscall sample_world ''/mnt/missing'' = Inl ENOENT"
    by (simp add: sample_world_def sample_files_def)
  from spawned missing
    C3_checks_before_spawn [of sample_world "''/home/u/.tmsu/default.db''" "''/mnt/tags''" False]
    C3_checks_before_spawn [where w = sample_world and mountPath = "''/mnt/missing''" and e = ENOENT
      and databasePath = "''/home/u/.tmsu/default.db''" and allowOther = False]
  show ?thesis by blast
qed

text \<open>
  C4. \<open>mountExec\<close> looks at the number of arguments only. With none it lists the mounts;
  with one it mounts \<open>database.Path\<close> at that path; with two it mounts the first at the
  second; the error of each comes back wrapped in the router's message. With more than
  two it returns the argument-count error and has made no call at all: no query of the
  filesystem, no spawn, no read of the mount table.
\<close>

theorem C4_dispatch_on_argument_count:
  "mountExec w HasOption [] =
     (fst (listMounts w), map_option CouldNotListMounts (snd (listMounts w)))
   \<and> mountExec w HasOption [mountPath] =
       (fst (mountExplicit w (database_Path w) mountPath (HasOption ''--allow-other'')),
        map_option (CouldNotMountDefault mountPath)
          (snd (mountExplicit w (database_Path w) mountPath (HasOption ''--allow-other''))))
   \<and> mountExec w HasOption [databasePath, mountPath] =
       (fst (mountExplicit w databasePath mountPath (HasOption ''--allow-other'')),
        map_option (CouldNotMountExplicit databasePath mountPath)
          (snd (mountExplicit w databasePath mountPath (HasOption ''--allow-other''))))
   \<and> (2 < length args \<longrightarrow> mountExec w HasOption args = ([], Some TooManyArguments))"
proof -
  have zero: "mountExec w HasOption [] =
     (fst (listMounts w), map_option CouldNotListMounts (snd (listMounts w)))"
    by (simp add: mountExec_def split: prod.split option.split)
  have one: "mountExec w HasOption [mountPath] =
       (fst (mountExplicit w (database_Path w) mountPath (HasOption ''--allow-other'')),
        map_option (CouldNotMountDefault mountPath)
          (snd (mountExplicit w (database_Path w) mountPath (HasOption ''--allow-other''))))"
    by (simp add: mountExec_def mountDefault_def split: prod.split option.split)
  have two: "mountExec w HasOption [databasePath, mountPath] =
       (fst (mountExplicit w databasePath mountPath (HasOption ''--allow-other'')),
        map_option (CouldNotMountExplicit databasePath mountPath)
          (snd (mountExplicit w databasePath mountPath (HasOption ''--allow-other''))))"
    by (simp add: mountExec_def split: prod.split option.split)
  have more: "2 < length args \<longrightarrow> mountExec w HasOption args = ([], Some TooManyArguments)"
    by (auto simp add: mountExec_def Let_def)
  from zero one two more show ?thesis by blast
qed

text \<open>C4 on the sample machine, with three arguments.\<close>

theorem C4_dispatch_on_argument_count_witness:
  "mountExec sample_world (\<lambda>name. False) [''/a.db'', ''/mnt/tags'', ''/mnt/more''] =
     ([], Some TooManyArguments)
   \<and> error_Error TooManyArguments = ''Too many arguments.''"
  using C4_dispatch_on_argument_count
          [where w = sample_world and HasOption = "\<lambda>name. False"
             and args = "[''/a.db'', ''/mnt/tags'', ''/mnt/more'']"]
  by simp

text \<open>
  C5. When something other than a directory is at the mount path, \<open>mountExplicit\<close> fails
  with the error saying that the mount point is not a directory, after the one query.
  When the mount point is a directory and the query of the database path succeeds,
  whatever it finds there, the checks pass and the launch begins; putting another
  description (of any kind) at the database path changes neither trace nor result.
\<close>

theorem C5_mount_point_must_be_a_directory:
  "(stat_syscall w mountPath = Inr stat \<and> \<not> IsDir stat \<longrightarrow>
      mountExplicit w databasePath mountPath allowOther =
        ([Stat mountPath], Some (MountPointNotADirectory mountPath)))
   \<and> (stat_syscall w mountPath = Inr stat \<and> IsDir stat
        \<and> stat_syscall w databasePath = Inr found \<longrightarrow>
        mountExplicit w databasePath mountPath allowOther =
          ([Stat mountPath, Stat databasePath]
             @ fst (mountExplicit_spawn w databasePath mountPath allowOther),
           snd (mountExplicit_spawn w databasePath mountPath allowOther))
        \<and> (databasePath \<noteq> mountPath \<longrightarrow>
             mountExplicit (w\<lparr>stat_syscall := (stat_syscall w)(databasePath := Inr other)\<rparr>)
               databasePath mountPath allowOther =
             mountExplicit w databasePath mountPath allowOther))"
proof -
  have passes: "mountExplicit w databasePath mountPath allowOther =
          ([Stat mountPath, Stat databasePath]
             @ fst (mountExplicit_spawn w databasePath mountPath allowOther),
           snd (mountExplicit_spawn w databasePath mountPath allowOther))
        \<and> (databasePath \<noteq> mountPath \<longrightarrow>
             mountExplicit (w\<lparr>stat_syscall := (stat_syscall w)(databasePath := Inr other)\<rparr>)
               databasePath mountPath allowOther =
             mountExplicit w databasePath mountPath allowOther)"
    if mnt: "stat_syscall w mountPath = Inr stat" "IsDir stat"
      and db: "stat_syscall w databasePath = Inr found"
  proof -
    let ?w' = "w\<lparr>stat_syscall := (stat_syscall w)(databasePath := Inr other)\<rparr>"
    from mnt db have v: "validated w databasePath mountPath"
      by (simp add: validated_def)
    from mnt have v': "databasePath \<noteq> mountPath \<Longrightarrow> validated ?w' databasePath mountPath"
      by (simp add: validated_def)
    show ?thesis
      using v v'
      by (simp add: mountExplicit_validated spawn_ignores_files)
  qed
  then show ?thesis
    by (auto simp add: mountExplicit_not_dir)
qed

text \<open>
  C5 on the sample machine: the regular file /etc/hostname as mount point, and the
  directory /mnt/tags given as the database.
\<close>

theorem C5_mount_point_must_be_a_directory_witness:
  "mountExplicit sample_world ''/home/u/.tmsu/default.db'' ''/etc/hostname'' False =
     ([Stat ''/etc/hostname''], Some (MountPointNotADirectory ''/etc/hostname''))
   \<and> error_Error (MountPointNotADirectory ''/etc/hostname'') =
       ''/etc/hostname: mount point is not a directory.''
   \<and> mountExplicit sample_world ''/mnt/tags'' ''/mnt/tags'' False =
       ([Stat ''/mnt/tags'', Stat ''/mnt/tags'']
          @ launch_trace sample_world ''/mnt/tags'' ''/mnt/tags'' False, None)"
proof -
  have regular: "stat_syscall sample_world ''/etc/hostname'' = Inr \<lparr>Name = ''hostname'', Kind = RegularFile\<rparr>
      \<and> \<not> IsDir \<lparr>Name = ''hostname'', Kind = RegularFile\<rparr>"
    by (simp add: sample_world_def sample_files_def IsDir_def)
  have dir: "stat_syscall sample_world ''/mnt/tags'' = Inr \<lparr>Name = ''tags'', Kind = Directory\<rparr>
      \<and> IsDir \<lparr>Name = ''tags'', Kind = Directory\<rparr>"
    by (simp add: sample_world_def sample_files_def IsDir_def)
  have spawn: "mountExplicit_spawn sample_world ''/mnt/tags'' ''/mnt/tags'' False =
      (launch_trace sample_world ''/mnt/tags'' ''/mnt/tags'' False, None)"
    by (rule spawn_still_running) (simp_all add: sample_world_def)
  from regular dir spawn
    C5_mount_point_must_be_a_directory
      [where w = sample_world and mountPath = "''/etc/hostname''"
         and stat = "\<lparr>Name = ''hostname'', Kind = RegularFile\<rparr>"
         and databasePath = "''/home/u/.tmsu/default.db''" and allowOther = False]
    C5_mount_point_must_be_a_directory
      [where w = sample_world and mountPath = "''/mnt/tags''"
         and stat = "\<lparr>Name = ''tags'', Kind = Directory\<rparr>"
         and found = "\<lparr>Name = ''tags'', Kind = Directory\<rparr>"
         and databasePath = "''/mnt/tags''" and allowOther = False]
  show ?thesis by simp
qed

text \<open>
  C6. When the child was started, the poll shows that it exited with a status other than
  zero, and it has written \<open>mount point busy\<close> to its error stream, \<open>mountExplicit\<close>
  fails with the mount failure whose text is exactly those bytes. And whenever
  \<open>mountExplicit\<close> returns a mount failure, its text has 1024 bytes at most.
\<close>

theorem C6_busy_mount_point:
  "(started w databasePath mountPath \<and> wait4_syscall w = Changed (exit_status_word code)
      \<and> code \<noteq> 0 \<and> read_errno w = None \<and> pipe_data w = ''mount point busy'' \<longrightarrow>
      snd (mountExplicit w databasePath mountPath allowOther) =
        Some (MountFailed ''mount point busy'')
      \<and> error_Error (MountFailed ''mount point busy'') =
          ''virtual filesystem mount failed: mount point busy'')
   \<and> (snd (mountExplicit w databasePath mountPath allowOther) = Some (MountFailed message) \<longrightarrow>
        length message \<le> 1024)"
proof -
  have busy: "snd (mountExplicit w databasePath mountPath allowOther) =
        Some (MountFailed ''mount point busy'')"
    if "started w databasePath mountPath" "wait4_syscall w = Changed (exit_status_word code)"
      "code \<noteq> 0" "read_errno w = None" "pipe_data w = ''mount point busy''"
  proof -
    from that(3) have "ExitStatus (exit_status_word code) \<noteq> 0"
      by (simp add: ExitStatus_exit_status_word uint_0_iff)
    with that show ?thesis
      by (simp add: started_exit_nonzero [where s = "exit_status_word code"]
          Exited_exit_status_word read_diagnostic_eq)
  qed
  then show ?thesis
    by (auto simp add: mountExplicit_MountFailed_length)
qed

text \<open>C6 on the sample machine: the child exits with status 1.\<close>

theorem C6_busy_mount_point_witness:
  "snd (mountExplicit (sample_world\<lparr>wait4_syscall := Changed (exit_status_word 1),
                                      pipe_data := ''mount point busy'', read_errno := None\<rparr>)
          ''/home/u/.tmsu/default.db'' ''/mnt/tags'' False) =
     Some (MountFailed ''mount point busy'')
   \<and> length ''mount point busy'' \<le> 1024"
proof -
  let ?w = "sample_world\<lparr>wait4_syscall := Changed (exit_status_word 1),
                          pipe_data := ''mount point busy'', read_errno := None\<rparr>"
  have s: "started ?w ''/home/u/.tmsu/default.db'' ''/mnt/tags''"
    by (simp only: started_update sample_world_started)
  from s C6_busy_mount_point [where w = "?w" and databasePath = "''/home/u/.tmsu/default.db''"
      and mountPath = "''/mnt/tags''" and allowOther = False and code = 1
      and message = "''mount point busy''"]
  show ?thesis by simp
qed

text \<open>
  C7. When the child was started and the poll finds it still running, or finds that it
  exited with status zero, \<open>mountExplicit\<close> returns no error. The poll is the last call
  it makes: it slept once, polled once, and never read from the pipe.
\<close>

theorem C7_running_or_exit_zero_is_success:
  "started w databasePath mountPath
     \<and> (wait4_syscall w = StillRunning \<or> wait4_syscall w = Changed (exit_status_word 0)) \<longrightarrow>
   mountExplicit w databasePath mountPath allowOther =
     ([Stat mountPath, Stat databasePath, spawning_line databasePath mountPath, StderrPipe,
       Start (os_Args0 w) (daemon_args databasePath mountPath allowOther),
       LogSupp ''sleeping.'', Sleep HALF_SECOND,
       LogSupp ''checking whether daemon started successfully.'',
       Wait4 (daemon_pid w) WNOHANG],
      None)
   \<and> last (fst (mountExplicit w databasePath mountPath allowOther)) =
        Wait4 (daemon_pid w) WNOHANG
   \<and> filter is_PipeRead (fst (mountExplicit w databasePath mountPath allowOther)) = []
   \<and> filter is_Sleep (fst (mountExplicit w databasePath mountPath allowOther)) =
        [Sleep HALF_SECOND]
   \<and> filter is_Wait4 (fst (mountExplicit w databasePath mountPath allowOther)) =
        [Wait4 (daemon_pid w) WNOHANG]"
proof -
  have "mountExplicit w databasePath mountPath allowOther =
          ([Stat mountPath, Stat databasePath] @ launch_trace w databasePath mountPath allowOther,
           None)"
    if s: "started w databasePath mountPath"
      and p: "wait4_syscall w = StillRunning \<or> wait4_syscall w = Changed (exit_status_word 0)"
  proof -
    have zero: "mountExplicit_classify w (exit_status_word 0) = ([], None)"
      by (simp add: mountExplicit_classify_def ExitStatus_exit_status_word)
    from p show ?thesis
    proof
      assume "wait4_syscall w = StillRunning"
      with s show ?thesis
        by (simp add: started_def mountExplicit_validated spawn_still_running)
    next
      assume "wait4_syscall w = Changed (exit_status_word 0)"
      with s zero show ?thesis
        by (simp add: started_def mountExplicit_validated spawn_changed)
    qed
  qed
  then show ?thesis
    by (auto simp add: launch_trace_def spawning_line_def)
qed

text \<open>
  C7 on the sample machine: a child still running, and a child that exited with status
  zero after writing a warning.
\<close>

theorem C7_running_or_exit_zero_is_success_witness:
  "mountExplicit sample_world ''/home/u/.tmsu/default.db'' ''/mnt/tags'' False =
     ([Stat ''/mnt/tags'', Stat ''/home/u/.tmsu/default.db'',
       spawning_line ''/home/u/.tmsu/default.db'' ''/mnt/tags'', StderrPipe,
       Start ''/usr/bin/tmsu'' [''vfs'', ''/home/u/.tmsu/default.db'', ''/mnt/tags''],
       LogSupp ''sleeping.'', Sleep 500000000,
       LogSupp ''checking whether daemon started successfully.'',
       Wait4 4242 1],
      None)
   \<and> snd (mountExplicit (sample_world\<lparr>wait4_syscall := Changed (exit_status_word 0),
                                        pipe_data := ''warning'', read_errno := None\<rparr>)
            ''/home/u/.tmsu/default.db'' ''/mnt/tags'' False) = None
   \<and> filter is_PipeRead
         (fst (mountExplicit (sample_world\<lparr>wait4_syscall := Changed (exit_status_word 0),
                                              pipe_data := ''warning'', read_errno := None\<rparr>)
                 ''/home/u/.tmsu/default.db'' ''/mnt/tags'' False)) = []"
proof -
  let ?w = "sample_world\<lparr>wait4_syscall := Changed (exit_status_word 0),
                          pipe_data := ''warning'', read_errno := None\<rparr>"
  have s: "started ?w ''/home/u/.tmsu/default.db'' ''/mnt/tags''"
    by (simp only: started_update sample_world_started)
  have running: "wait4_syscall sample_world = StillRunning"
    by (simp add: sample_world_def)
  have machine: "os_Args0 sample_world = ''/usr/bin/tmsu''" "daemon_pid sample_world = 4242"
    by (simp_all add: sample_world_def)
  from s running sample_world_started
    C7_running_or_exit_zero_is_success [where w = sample_world
      and databasePath = "''/home/u/.tmsu/default.db''" and mountPath = "''/mnt/tags''"
      and allowOther = False]
    C7_running_or_exit_zero_is_success [where w = "?w"
      and databasePath = "''/home/u/.tmsu/default.db''" and mountPath = "''/mnt/tags''"
      and allowOther = False]
  show ?thesis
    by (simp add: machine daemon_args_def HALF_SECOND_def WNOHANG_def spawning_line_def)
qed

text \<open>
  C8. The constant \<open>HALF_SECOND\<close> is 500 milliseconds. When the child was started, the
  calls from \<open>Start\<close> on are: the log line, the sleep of 500 milliseconds, the log line,
  and \<open>Wait4\<close> on the child with \<open>WNOHANG\<close>; there is no other sleep and no other poll
  in the trace. When that poll fails, \<open>mountExplicit\<close> fails with the error of line 161
  and the poll is its last call. When the child was not started, there is neither sleep
  nor poll.
\<close>

theorem C8_grace_interval_and_poll:
  "HALF_SECOND = 500 * Millisecond
   \<and> (started w databasePath mountPath \<longrightarrow>
        (\<exists>after.
           fst (mountExplicit w databasePath mountPath allowOther) =
             [Stat mountPath, Stat databasePath, spawning_line databasePath mountPath,
              StderrPipe]
             @ [Start (os_Args0 w) (daemon_args databasePath mountPath allowOther),
                LogSupp ''sleeping.'', Sleep (500 * Millisecond),
                LogSupp ''checking whether daemon started successfully.'',
                Wait4 (daemon_pid w) WNOHANG]
             @ after
           \<and> filter is_Sleep after = [] \<and> filter is_Wait4 after = [])
        \<and> filter is_Sleep (fst (mountExplicit w databasePath mountPath allowOther)) =
             [Sleep (500 * Millisecond)]
        \<and> filter is_Wait4 (fst (mountExplicit w databasePath mountPath allowOther)) =
             [Wait4 (daemon_pid w) WNOHANG])
   \<and> (started w databasePath mountPath \<and> wait4_syscall w = WaitFailed e \<longrightarrow>
        snd (mountExplicit w databasePath mountPath allowOther) =
          Some (CouldNotCheckDaemon (SyscallError e))
        \<and> last (fst (mountExplicit w databasePath mountPath allowOther)) =
            Wait4 (daemon_pid w) WNOHANG)
   \<and> (\<not> started w databasePath mountPath \<longrightarrow>
        filter is_Sleep (fst (mountExplicit w databasePath mountPath allowOther)) = []
        \<and> filter is_Wait4 (fst (mountExplicit w databasePath mountPath allowOther)) = [])"
proof -
  have half: "HALF_SECOND = 500 * Millisecond"
    by (simp add: HALF_SECOND_def Millisecond_def)
  have shape: "(\<exists>after.
           fst (mountExplicit w databasePath mountPath allowOther) =
             [Stat mountPath, Stat databasePath, spawning_line databasePath mountPath,
              StderrPipe]
             @ [Start (os_Args0 w) (daemon_args databasePath mountPath allowOther),
                LogSupp ''sleeping.'', Sleep (500 * Millisecond),
                LogSupp ''checking whether daemon started successfully.'',
                Wait4 (daemon_pid w) WNOHANG]
             @ after
           \<and> filter is_Sleep after = [] \<and> filter is_Wait4 after = [])
        \<and> filter is_Sleep (fst (mountExplicit w databasePath mountPath allowOther)) =
             [Sleep (500 * Millisecond)]
        \<and> filter is_Wait4 (fst (mountExplicit w databasePath mountPath allowOther)) =
             [Wait4 (daemon_pid w) WNOHANG]"
    if "started w databasePath mountPath"
    using started_traces [OF that, of allowOther]
    by (auto simp add: launch_trace_def spawning_line_def half)
  have failed: "snd (mountExplicit w databasePath mountPath allowOther) =
          Some (CouldNotCheckDaemon (SyscallError e))
        \<and> last (fst (mountExplicit w databasePath mountPath allowOther)) =
            Wait4 (daemon_pid w) WNOHANG"
    if "started w databasePath mountPath" "wait4_syscall w = WaitFailed e"
    using that
    by (simp add: started_def mountExplicit_validated spawn_poll_failed launch_trace_def)
  have none: "filter is_Sleep (fst (mountExplicit w databasePath mountPath allowOther)) = []
        \<and> filter is_Wait4 (fst (mountExplicit w databasePath mountPath allowOther)) = []"
    if "\<not> started w databasePath mountPath"
    using not_started_traces [OF that, of allowOther]
    by (auto simp add: filter_empty_conv spawning_line_def)
  from half shape failed none show ?thesis by blast
qed

text \<open>C8 on the sample machine: a launch, a poll that fails, and a missing mount point.\<close>

theorem C8_grace_interval_and_poll_witness:
  "filter is_Sleep (fst (mountExplicit sample_world ''/home/u/.tmsu/default.db'' ''/mnt/tags'' False)) =
     [Sleep 500000000]
   \<and> filter is_Wait4 (fst (mountExplicit sample_world ''/home/u/.tmsu/default.db'' ''/mnt/tags'' False)) =
       [Wait4 4242 WNOHANG]
   \<and> snd (mountExplicit (sample_world\<lparr>wait4_syscall := WaitFailed ECHILD, pipe_data := [],
                                        read_errno := None\<rparr>)
            ''/home/u/.tmsu/default.db'' ''/mnt/tags'' False) =
       Some (CouldNotCheckDaemon (SyscallError ECHILD))
   \<and> filter is_Sleep (fst (mountExplicit sample_world ''/home/u/.tmsu/default.db'' ''/mnt/missing'' False)) = []"
proof -
  let ?w = "sample_world\<lparr>wait4_syscall := WaitFailed ECHILD, pipe_data := [],
                          read_errno := None\<rparr>"
  have s: "started ?w ''/home/u/.tmsu/default.db'' ''/mnt/tags''"
    by (simp only: started_update sample_world_started)
  have n: "\<not> started sample_world ''/home/u/.tmsu/default.db'' ''/mnt/missing''"
    by (simp add: started_def validated_def sample_world_def sample_files_def)
  have pid: "daemon_pid sample_world = 4242"
    by (simp add: sample_world_def)
  from s n sample_world_started
    C8_grace_interval_and_poll [where w = sample_world
      and databasePath = "''/home/u/.tmsu/default.db''" and mountPath = "''/mnt/tags''"
      and allowOther = False]
    C8_grace_interval_and_poll [where w = "?w" and e = ECHILD
      and databasePath = "''/home/u/.tmsu/default.db''" and mountPath = "''/mnt/tags''"
      and allowOther = False]
    C8_grace_interval_and_poll [where w = sample_world
      and databasePath = "''/home/u/.tmsu/default.db''" and mountPath = "''/mnt/missing''"
      and allowOther = False]
  show ?thesis
    by (simp add: pid Millisecond_def)
qed

text \<open>
  C9. When the checks pass and the pipe opens, \<open>mountExplicit\<close> starts one child: the
  program is \<open>os.Args[0]\<close>, and the arguments are \<open>vfs\<close>, the database path and the mount
  path, followed by \<open>--allow-other\<close> exactly when \<open>allowOther\<close> is set. Otherwise it starts
  none.
\<close>

theorem C9_daemon_command:
  "filter is_Start (fst (mountExplicit w databasePath mountPath allowOther)) =
     (if validated w databasePath mountPath \<and> stderr_pipe_error w = None
      then [Start (os_Args0 w)
              (if allowOther then [''vfs'', databasePath, mountPath, ''--allow-other'']
               else [''vfs'', databasePath, mountPath])]
      else [])"
  by (simp add: mountExplicit_Start_events daemon_args_def)

text \<open>C9 on the sample machine, with the flag and without it.\<close>

theorem C9_daemon_command_witness:
  "validated sample_world ''/home/u/.tmsu/default.db'' ''/mnt/tags''
   \<and> stderr_pipe_error sample_world = None
   \<and> filter is_Start (fst (mountExplicit sample_world ''/home/u/.tmsu/default.db'' ''/mnt/tags'' True)) =
       [Start ''/usr/bin/tmsu'' [''vfs'', ''/home/u/.tmsu/default.db'', ''/mnt/tags'', ''--allow-other'']]
   \<and> filter is_Start (fst (mountExplicit sample_world ''/home/u/.tmsu/default.db'' ''/mnt/tags'' False)) =
       [Start ''/usr/bin/tmsu'' [''vfs'', ''/home/u/.tmsu/default.db'', ''/mnt/tags'']]"
proof -
  have ok: "validated sample_world ''/home/u/.tmsu/default.db'' ''/mnt/tags''
      \<and> stderr_pipe_error sample_world = None"
    using sample_world_started by (simp add: started_def)
  have exe: "os_Args0 sample_world = ''/usr/bin/tmsu''"
    by (simp add: sample_world_def)
  from ok exe
    C9_daemon_command [of sample_world "''/home/u/.tmsu/default.db''" "''/mnt/tags''" True]
    C9_daemon_command [of sample_world "''/home/u/.tmsu/default.db''" "''/mnt/tags''" False]
  show ?thesis by simp
qed

text \<open>
  C10. Mounting the default database is delegation: for every mount path and allow-other
  setting, \<open>mountDefault\<close> makes the calls and returns the result of \<open>mountExplicit\<close>
  on \<open>database.Path\<close>, and nothing else.
\<close>

theorem C10_mountDefault_delegates:
  "mountDefault w mountPath allowOther = mountExplicit w (database_Path w) mountPath allowOther"
  by (simp add: mountDefault_def split: prod.split option.split)

end
